theory Spec2Isabelle
  imports Complex_Main
begin

section \<open>Cam: operation compilers\<close>

text \<open>
  The Cam module (pocket, outline, engrave, separateTabs) works on internal paths: JavaScript
  arrays of vertices. A vertex is kept abstract (\<open>'v\<close>); reading an array outside its
  range gives JavaScript's \<open>undefined\<close>, which is \<open>None\<close> here.
\<close>

definition nth_js :: "'v list \<Rightarrow> int \<Rightarrow> 'v option" where
  "nth_js xs i = (if 0 \<le> i \<and> i < int (length xs) then Some (xs ! nat i) else None)"

record 'v CamPath =
  path :: "'v list"
  safeToClose :: bool

text \<open>
  \<open>mergePaths\<close> of the Cam module wraps \<open>InternalPaths.mergePaths\<close> and
  \<open>InternalPaths.crosses\<close>. Neither is part of the available sources, so both are
  parameters (\<open>ip_merge\<close>, \<open>ip_crosses\<close>). The clip polygon may be \<open>null\<close>
  (engrave passes it), hence the option.
\<close>

definition mergePaths ::
  "('c option \<Rightarrow> 'v list list \<Rightarrow> 'v list list) \<Rightarrow> ('c option \<Rightarrow> 'v option \<Rightarrow> 'v option \<Rightarrow> bool) \<Rightarrow>
   'c option \<Rightarrow> 'v list list \<Rightarrow> 'v CamPath list" where
  "mergePaths ip_merge ip_crosses clipPoly paths =
     map (\<lambda>p. \<lparr>path = p,
               safeToClose = (\<not> ip_crosses clipPoly (nth_js p 0) (nth_js p (int (length p) - 1)))\<rparr>)
         (ip_merge clipPoly paths)"

subsection \<open>engrave\<close>

text \<open>
  \<open>copy.push(copy[0])\<close>: the closing vertex is whatever \<open>copy[0]\<close> reads, which is
  \<open>undefined\<close> for an empty contour. The vertices of an engraved path are therefore
  \<open>'a option\<close>.
\<close>

definition close_path :: "'a list \<Rightarrow> 'a option list" where
  "close_path copy = map Some copy @ [nth_js copy 0]"


subsection \<open>pocket\<close>

text \<open>
  \<open>pocket\<close> reverses paths in place (\<open>current[i].reverse()\<close>) while
  \<open>clipPoly = current.slice(0)\<close> is a shallow copy: a new outer array holding the
  same path objects as the first \<open>current\<close>. The model keeps the path arrays in a
  store (array objects by address) so that this sharing is visible. \<open>InternalPaths.offset\<close>
  is not part of the available sources; it is the parameter \<open>offset\<close> and is taken to
  return newly allocated path arrays.

  The \<open>while\<close> loop has no bound in the source, so the model counts iterations with fuel:
  \<open>None\<close> means the loop was still running when the fuel ran out.
\<close>

type_synonym addr = nat
type_synonym 'v store = "'v list list"

definition deref :: "'v store \<Rightarrow> addr list \<Rightarrow> 'v list list" where
  "deref h as = map (\<lambda>a. h ! a) as"

definition alloc :: "'v list list \<Rightarrow> 'v store \<Rightarrow> addr list \<times> 'v store" where
  "alloc ps h = ([length h ..< length h + length ps], h @ ps)"

definition reverse_each :: "addr list \<Rightarrow> 'v store \<Rightarrow> 'v store" where
  "reverse_each as h = fold (\<lambda>a h'. h'[a := rev (h' ! a)]) as h"

fun pocket_loop ::
  "nat \<Rightarrow> ('v list list \<Rightarrow> real \<Rightarrow> 'v list list) \<Rightarrow> real \<Rightarrow> real \<Rightarrow> bool \<Rightarrow>
   addr list \<Rightarrow> addr list \<Rightarrow> 'v store \<Rightarrow> (addr list \<times> 'v store) option" where
  "pocket_loop 0 offset cutterDia overlap climb current allPaths h =
     (if length current \<noteq> 0 then None else Some (allPaths, h))"
| "pocket_loop (Suc fuel) offset cutterDia overlap climb current allPaths h =
     (if length current \<noteq> 0 then
        (let h1 = (if climb then reverse_each current h else h);
             allPaths' = current @ allPaths;
             (current', h2) = alloc (offset (deref h1 current) (- cutterDia * (1 - overlap))) h1
         in pocket_loop fuel offset cutterDia overlap climb current' allPaths' h2)
      else Some (allPaths, h))"

definition pocket ::
  "nat \<Rightarrow> ('v list list \<Rightarrow> real \<Rightarrow> 'v list list) \<Rightarrow>
   ('v list list option \<Rightarrow> 'v list list \<Rightarrow> 'v list list) \<Rightarrow>
   ('v list list option \<Rightarrow> 'v option \<Rightarrow> 'v option \<Rightarrow> bool) \<Rightarrow>
   'v list list \<Rightarrow> real \<Rightarrow> real \<Rightarrow> bool \<Rightarrow> 'v CamPath list option" where
  "pocket fuel offset ip_merge ip_crosses geometry cutterDia overlap climb =
     (let (current, h0) = alloc (offset geometry (- cutterDia / 2)) [];
          clipPoly = current
      in case pocket_loop fuel offset cutterDia overlap climb current [] h0 of
           None \<Rightarrow> None
         | Some (allPaths, h) \<Rightarrow>
             Some (mergePaths ip_merge ip_crosses (Some (deref h clipPoly)) (deref h allPaths)))"

text \<open>
  The algorithm as the specification words it, on plain values: start from
  \<open>g\<^sub>0 = offset(geometry, -cutterDia/2)\<close>; while the current set is non-empty, prepend it
  (each path reversed when climb) to the accumulated list and replace it by its offset by
  \<open>-cutterDia\<cdot>(1 - overlap)\<close>; finally merge the accumulated list against \<open>g\<^sub>0\<close>.
\<close>

fun pocket_passes ::
  "nat \<Rightarrow> ('v list list \<Rightarrow> real \<Rightarrow> 'v list list) \<Rightarrow> real \<Rightarrow> bool \<Rightarrow>
   'v list list \<Rightarrow> 'v list list \<Rightarrow> 'v list list option" where
  "pocket_passes 0 offset delta climb current acc = (if current = [] then Some acc else None)"
| "pocket_passes (Suc fuel) offset delta climb current acc =
     (if current = [] then Some acc
      else (let c = (if climb then map rev current else current)
            in pocket_passes fuel offset delta climb (offset c delta) (c @ acc)))"

definition pocket_spec ::
  "nat \<Rightarrow> ('v list list \<Rightarrow> real \<Rightarrow> 'v list list) \<Rightarrow>
   ('v list list option \<Rightarrow> 'v list list \<Rightarrow> 'v list list) \<Rightarrow>
   ('v list list option \<Rightarrow> 'v option \<Rightarrow> 'v option \<Rightarrow> bool) \<Rightarrow>
   'v list list \<Rightarrow> real \<Rightarrow> real \<Rightarrow> bool \<Rightarrow> 'v CamPath list option" where
  "pocket_spec fuel offset ip_merge ip_crosses geometry cutterDia overlap climb =
     (let g0 = offset geometry (- cutterDia / 2)
      in map_option (mergePaths ip_merge ip_crosses (Some g0))
           (pocket_passes fuel offset (- cutterDia * (1 - overlap)) climb g0 []))"


subsection \<open>separateTabs\<close>

text \<open>
  Points are \<open>{X, Y}\<close> objects; \<open>Polygon.contains\<close>, \<open>Segment.intersect\<close> and
  \<open>distanceTo\<close> belong to the external package 2d-geometry and are parameters
  (\<open>contains\<close>, \<open>intersect\<close>, \<open>distanceTo\<close>). A tab polygon is kept abstract (\<open>'t\<close>).

  The source calls \<open>paths.unshift\<close> before the declaration \<open>const paths = []\<close> has been
  evaluated; reading a \<open>const\<close> binding before its declaration throws a ReferenceError.
  An empty tool path makes \<open>ip0\<close> undefined, and \<open>ip0.X\<close> throws a TypeError.
\<close>

datatype error = ReferenceError string | TypeError string | Error string

type_synonym 'a point = "'a \<times> 'a"

definition split_at :: "'a point \<Rightarrow> 'a point list \<times> 'a point list list \<Rightarrow> 'a point list \<times> 'a point list list" where
  "split_at ins s = (case s of (currPath, paths) \<Rightarrow> ([ins], paths @ [currPath @ [ins]]))"

definition tab_step ::
  "('a point \<Rightarrow> 'a point \<Rightarrow> 't \<Rightarrow> 'a point list) \<Rightarrow> ('a point \<Rightarrow> 'a point \<Rightarrow> real) \<Rightarrow>
   'a point \<Rightarrow> 'a point \<Rightarrow> 't \<Rightarrow>
   'a point list \<times> 'a point list list \<Rightarrow> 'a point list \<times> 'a point list list" where
  "tab_step intersect distanceTo p0 ip1 tabPoly s =
     (let intersections = intersect p0 ip1 tabPoly in
      if length intersections > 0 then
        (case fold split_at (sort_key (\<lambda>a. distanceTo a p0) intersections) s of
           (currPath, paths) \<Rightarrow> (currPath @ [ip1], paths))
      else (case s of (currPath, paths) \<Rightarrow> (currPath @ [ip1], paths)))"

fun walk ::
  "('a point \<Rightarrow> 'a point \<Rightarrow> 't \<Rightarrow> 'a point list) \<Rightarrow> ('a point \<Rightarrow> 'a point \<Rightarrow> real) \<Rightarrow> 't list \<Rightarrow>
   'a point \<Rightarrow> 'a point list \<Rightarrow>
   'a point list \<times> 'a point list list \<Rightarrow> 'a point list \<times> 'a point list list" where
  "walk intersect distanceTo tabPolys ip0 [] s = s"
| "walk intersect distanceTo tabPolys ip0 (ip1 # rest) s =
     (if fst ip1 \<noteq> fst ip0 \<or> snd ip1 \<noteq> snd ip0 then
        walk intersect distanceTo tabPolys ip1 rest
          (fold (tab_step intersect distanceTo ip0 ip1) tabPolys s)
      else walk intersect distanceTo tabPolys ip0 rest s)"

definition separateTabs ::
  "('t \<Rightarrow> 'a point \<Rightarrow> bool) \<Rightarrow> ('a point \<Rightarrow> 'a point \<Rightarrow> 't \<Rightarrow> 'a point list) \<Rightarrow>
   ('a point \<Rightarrow> 'a point \<Rightarrow> real) \<Rightarrow> 'a point list \<Rightarrow> 't list \<Rightarrow> error + 'a point list list" where
  "separateTabs contains intersect distanceTo toolPath tabGeometry =
     (case nth_js toolPath (int (length toolPath) - 1) of
        None \<Rightarrow> Inl (TypeError ''ip0 is undefined'')
      | Some ip0 \<Rightarrow>
          if list_ex (\<lambda>tab. contains tab ip0) tabGeometry
          then Inl (ReferenceError ''paths'')
          else (case walk intersect distanceTo tabGeometry ip0 toolPath ([ip0], []) of
                  (currPath, paths) \<Rightarrow>
                    Inr (if length currPath > 1 then paths @ [currPath] else paths)))"



text \<open>
  Consecutive sub-paths share an end point: each one is non-empty and starts at the vertex
  where the one before it ends.
\<close>

fun shares_end_points :: "'p list list \<Rightarrow> bool" where
  "shares_end_points [] = True"
| "shares_end_points [p] = (p \<noteq> [])"
| "shares_end_points (p # q # r) = (p \<noteq> [] \<and> last p = hd q \<and> shares_end_points (q # r))"

section \<open>GcodeGenerationViewModel: generateGcode\<close>

text \<open>
  What \<open>generateGcode\<close> reads from the application models is gathered in the record
  \<open>inputs\<close>; lengths, depths and rates are the values \<open>toUnits(gunits)\<close> returns.
  What it writes (the \<open>gcode\<close> observable, the alerts shown, the events dispatched, the
  tutorial step) is the record \<open>host\<close>, passed in and returned.
\<close>

record 'p operation =
  op_enabled :: bool
  op_toolPaths :: "'p list option"
  op_name :: string
  op_operation :: string
  op_ramp :: bool
  op_cutDepth :: real
  op_direction :: string
  op_spindleSpeed :: real

record 'g tab =
  tab_enabled :: bool
  tab_combinedGeometry :: 'g

record rect =
  r_left :: real
  r_bottom :: real
  r_width :: real
  r_height :: real

record ('p, 'g) inputs =
  allowGen :: bool
  operations :: "'p operation list"
  units :: string
  svgBB :: rect
  toolPathsBB :: rect
  origin :: string
  extraOffsetX :: real
  extraOffsetY :: real
  bbWidth :: real
  bbHeight :: real
  returnTo00 :: bool
  Material_topZ :: real
  Material_botZ :: real
  Material_zSafeMove :: real
  Tool_passDepth :: real
  Tool_plungeRate :: real
  Tool_rapidRate :: real
  Tool_cutRate :: real
  Tool_diameter :: real
  Tabs_maxCutDepth :: real
  tabs :: "'g tab list"

record alert =
  alert_id :: string
  alert_type :: string
  alert_params :: "real list"

record 'c host =
  gcode :: 'c
  alerts :: "alert list"
  events :: "string list"
  tutorial :: "nat list"

definition enabled_ops :: "'p operation list \<Rightarrow> 'p operation list" where
  "enabled_ops all_ops =
     filter (\<lambda>op. op_enabled op \<and> (case op_toolPaths op of None \<Rightarrow> False | Some ps \<Rightarrow> length ps > 0))
       all_ops"

definition origin_offset :: "string \<Rightarrow> rect \<Rightarrow> rect \<Rightarrow> real \<Rightarrow> real \<Rightarrow> real \<times> real" where
  "origin_offset orig svg tpBB ex ey =
     (let ox = r_left svg + ex; oy = r_bottom svg + ey in
      if orig = ''Bounding box'' \<or> orig = ''Centre'' then
        (let ox1 = ox + (r_left tpBB - r_left svg); oy1 = oy + (r_bottom svg - r_bottom tpBB) in
         if orig = ''Centre'' then (ox1 + r_width tpBB / 2, oy1 + r_height tpBB / 2)
         else (ox1, oy1))
      else (ox, oy))"

subsection \<open>The current version (src/GcodeGenerationViewModel.js)\<close>

record 'g job =
  job_gunits :: string
  job_xScale :: real
  job_yScale :: real
  job_zScale :: real
  job_decimal :: nat
  job_topZ :: real
  job_botZ :: real
  job_safeZ :: real
  job_passDepth :: real
  job_plungeFeed :: real
  job_retractFeed :: real
  job_cutFeed :: real
  job_rapidFeed :: real
  job_returnTo00 :: bool
  job_workWidth :: real
  job_workHeight :: real
  job_offsetX :: real
  job_offsetY :: real
  job_tabZ :: "real option"
  job_tabGeometry :: "'g option"

record 'p opCard =
  card_name :: string
  card_cutType :: string
  card_paths :: "'p list option"
  card_ramp :: bool
  card_cutDepth :: real
  card_direction :: string
  card_spinSpeed :: real
  card_passDepth :: real
  card_precalculatedZ :: bool

text \<open>
  The code this version calls but that is not part of the available sources: the unit table
  \<open>UnitConverter.from.integer.to\<close>, the \<open>CutPaths\<close> class, the \<open>App.Ops\<close> constants and
  \<open>Gcode.Generator\<close>. The generator only receives the job fields and the operation cards,
  all job fields being set before the first card is added, so what \<open>job.end()\<close> returns is
  a function of the job and of the cards in the order they were added.
\<close>

record ('p, 'g) gcode_lib =
  integer_to :: "string \<Rightarrow> real"
  CutPaths_new :: 'g
  CutPaths_offset :: "'g \<Rightarrow> real \<Rightarrow> 'g"
  CutPaths_union :: "'g \<Rightarrow> 'g \<Rightarrow> 'g"
  Ops_Perforate :: string
  Ops_Drill :: string
  Generator_end :: "'g job \<Rightarrow> 'p opCard list \<Rightarrow> string list"

definition make_job :: "('p, 'g) gcode_lib \<Rightarrow> ('p, 'g) inputs \<Rightarrow> 'g job \<times> alert list" where
  "make_job lib inp =
     (let gunits = units inp;
          (ox, oy) = origin_offset (origin inp) (svgBB inp) (toolPathsBB inp)
                       (extraOffsetX inp) (extraOffsetY inp);
          job0 = \<lparr>job_gunits = gunits,
                  job_xScale = integer_to lib gunits,
                  job_yScale = - integer_to lib gunits,
                  job_zScale = 1,
                  job_decimal = 2,
                  job_topZ = Material_topZ inp,
                  job_botZ = Material_botZ inp,
                  job_safeZ = Material_zSafeMove inp,
                  job_passDepth = Tool_passDepth inp,
                  job_plungeFeed = Tool_plungeRate inp,
                  job_retractFeed = Tool_rapidRate inp,
                  job_cutFeed = Tool_cutRate inp,
                  job_rapidFeed = Tool_rapidRate inp,
                  job_returnTo00 = returnTo00 inp,
                  job_workWidth = bbWidth inp,
                  job_workHeight = bbHeight inp,
                  job_offsetX = ox,
                  job_offsetY = oy,
                  job_tabZ = None,
                  job_tabGeometry = None\<rparr>;
          tabCutDepth = Tabs_maxCutDepth inp;
          job1 = job0\<lparr>job_tabZ := Some (job_topZ job0 - tabCutDepth)\<rparr>;
          (job2, shown) =
             (if job_passDepth job1 < 0
              then (job1\<lparr>job_passDepth := 0\<rparr>,
                    [\<lparr>alert_id = ''passDepthTooSmall'', alert_type = ''alert-warning'',
                      alert_params = [job_passDepth job1]\<rparr>])
              else (job1, []));
          tabGeometry =
             fold (\<lambda>tab tg. if tab_enabled tab
                             then CutPaths_union lib tg
                                    (CutPaths_offset lib (tab_combinedGeometry tab) (Tool_diameter inp / 2))
                             else tg)
                  (tabs inp) (CutPaths_new lib)
      in (job2\<lparr>job_tabGeometry := Some tabGeometry\<rparr>, shown))"

definition make_opCard :: "('p, 'g) gcode_lib \<Rightarrow> 'g job \<Rightarrow> 'p operation \<Rightarrow> 'p opCard \<times> alert list" where
  "make_opCard lib job op =
     (let precalc = (op_operation op = Ops_Perforate lib \<or> op_operation op = Ops_Drill lib);
          opCard = \<lparr>card_name = op_name op,
                    card_cutType = op_operation op,
                    card_paths = op_toolPaths op,
                    card_ramp = op_ramp op,
                    card_cutDepth = op_cutDepth op,
                    card_direction = op_direction op,
                    card_spinSpeed = op_spindleSpeed op,
                    card_passDepth = (if precalc then op_cutDepth op else job_passDepth job),
                    card_precalculatedZ = precalc\<rparr>
      in if card_cutDepth opCard < 0
         then (opCard\<lparr>card_cutDepth := 0\<rparr>,
               [\<lparr>alert_id = ''cutDepthTooSmall'', alert_type = ''alert-warning'', alert_params = []\<rparr>])
         else (opCard, []))"

definition generateGcode ::
  "('p, 'g) gcode_lib \<Rightarrow> ('p, 'g) inputs \<Rightarrow> string list host \<Rightarrow> string list host" where
  "generateGcode lib inp h =
     (if \<not> allowGen inp then h
      else (let ops = enabled_ops (operations inp) in
        if length ops = 0 then h
        else (let (job, shown) = make_job lib inp;
                  cards = map (make_opCard lib job) ops
              in h\<lparr>gcode := Generator_end lib job (map fst cards),
                    alerts := alerts h @ shown @ concat (map snd cards),
                    events := events h @ [''UPDATE_SIMULATION''],
                    tutorial := tutorial h @ [5]\<rparr>)))"

subsection \<open>The earlier version (second module of js/SelectionViewModel.js)\<close>

text \<open>
  This version writes the preamble and the postamble itself and calls \<open>Gcode.generate\<close>
  once per operation. Not part of the available sources, and parameters here: the unit table,
  \<open>InternalPaths.offset\<close> and \<open>InternalPaths.clip\<close> (with \<open>ctUnion\<close>), \<open>Gcode.generate\<close>,
  and JavaScript's conversion of a number to text in a template literal (\<open>num_str\<close>) and by
  \<open>toFixed(2)\<close> (\<open>toFixed2\<close>).
\<close>

record ('p, 'g) gen_args =
  arg_paths :: "'p list option"
  arg_ramp :: bool
  arg_xScale :: real
  arg_yScale :: real
  arg_zScale :: real
  arg_offsetX :: real
  arg_offsetY :: real
  arg_useZ :: bool
  arg_tabGeometry :: 'g
  arg_tabZ :: real
  arg_decimal :: nat
  arg_topZ :: real
  arg_botZ :: real
  arg_safeZ :: real
  arg_passDepth :: real
  arg_plungeFeed :: real
  arg_retractFeed :: real
  arg_cutFeed :: real
  arg_rapidFeed :: real

record ('p, 'v) legacy_lib =
  internal_to :: "string \<Rightarrow> real"
  IP_offset :: "'v list list \<Rightarrow> real \<Rightarrow> 'v list list"
  IP_union :: "'v list list \<Rightarrow> 'v list list \<Rightarrow> 'v list list"
  Gcode_generate :: "('p, 'v list list) gen_args \<Rightarrow> string list"
  num_str :: "real \<Rightarrow> string"
  toFixed2 :: "real \<Rightarrow> string"

definition legacy_operation ::
  "('p, 'v) legacy_lib \<Rightarrow> ('p, 'v list list) inputs \<Rightarrow> real \<Rightarrow> 'v list list \<Rightarrow> real \<Rightarrow> real \<Rightarrow>
   'p operation \<Rightarrow> string list \<times> alert list \<Rightarrow> string list \<times> alert list" where
  "legacy_operation lib inp passDepth tabGeometry ox oy op s =
     (case s of (gcode0, shown0) \<Rightarrow>
      (let gunits = units inp;
           (cutDepth, shown1) =
              (if op_cutDepth op < 0
               then (0, shown0 @ [\<lparr>alert_id = ''cutDepthTooSmall'', alert_type = ''alert-warning'',
                                   alert_params = []\<rparr>])
               else (op_cutDepth op, shown0));
           gcode1 = gcode0 @
             [''; ** Operation **'',
              ''; Name:        '' @ op_name op,
              ''; Type:        '' @ op_operation op,
              ''; Paths:       '' @ num_str lib (real (case op_toolPaths op of None \<Rightarrow> 0 | Some ps \<Rightarrow> length ps)),
              ''; Direction:   '' @ op_direction op,
              ''; Cut Depth:   '' @ num_str lib cutDepth @ gunits,
              ''; Pass Depth:  '' @ num_str lib passDepth @ gunits,
              ''; Plunge rate: '' @ num_str lib (Tool_plungeRate inp) @ gunits @ ''/min'']
       in (gcode1 @ Gcode_generate lib
             \<lparr>arg_paths = op_toolPaths op,
              arg_ramp = op_ramp op,
              arg_xScale = internal_to lib gunits,
              arg_yScale = - internal_to lib gunits,
              arg_zScale = 1,
              arg_offsetX = ox,
              arg_offsetY = oy,
              arg_useZ = (op_operation op = ''V Carve'' \<or> op_operation op = ''Perforate''),
              arg_tabGeometry = tabGeometry,
              arg_tabZ = Material_topZ inp - Tabs_maxCutDepth inp,
              arg_decimal = 2,
              arg_topZ = Material_topZ inp,
              arg_botZ = Material_topZ inp - cutDepth,
              arg_safeZ = Material_zSafeMove inp,
              arg_passDepth = (if op_operation op = ''Perforate'' then cutDepth else passDepth),
              arg_plungeFeed = Tool_plungeRate inp,
              arg_retractFeed = Tool_rapidRate inp,
              arg_cutFeed = Tool_cutRate inp,
              arg_rapidFeed = Tool_rapidRate inp\<rparr>,
           shown1)))"

text \<open>
  \<open>legacy_job\<close> is the body of the earlier \<open>generateGcode\<close> after its two early returns:
  the alerts shown, and either the error thrown or the local array \<open>gcode\<close> as it is when
  it is joined. In the source the line pushing \<open>M2\<close> is indented under
  \<open>if (this.returnTo00())\<close> without braces, so it is a statement of its own.
\<close>

definition legacy_job ::
  "('p, 'v) legacy_lib \<Rightarrow> ('p, 'v list list) inputs \<Rightarrow> alert list \<times> (error + string list)" where
  "legacy_job lib inp =
     (let ops = enabled_ops (operations inp);
          gunits = units inp;
          safeZ = Material_zSafeMove inp;
          rapidRate = Tool_rapidRate inp;
          (passDepth, shown) =
             (if Tool_passDepth inp < 0
              then (0, [\<lparr>alert_id = ''passDepthTooSmall'', alert_type = ''alert-warning'',
                         alert_params = [Tool_passDepth inp]\<rparr>])
              else (Tool_passDepth inp, []));
          tabGeometry =
             fold (\<lambda>tab tg. if tab_enabled tab
                             then IP_union lib tg (IP_offset lib (tab_combinedGeometry tab) (Tool_diameter inp / 2))
                             else tg)
                  (tabs inp) [];
          (ox, oy) = origin_offset (origin inp) (svgBB inp) (toolPathsBB inp)
                       (extraOffsetX inp) (extraOffsetY inp);
          gcode0 = [''; Work area:('' @ toFixed2 lib (bbWidth inp) @ '','' @ toFixed2 lib (bbHeight inp) @ '')'' @ gunits,
                    ''; Offset:      ('' @ toFixed2 lib ox @ '','' @ toFixed2 lib oy @ '')'' @ gunits]
      in if gunits \<noteq> ''inch'' \<and> gunits \<noteq> ''mm''
         then (shown, Inl (Error (gunits @ '' units not supported by gcode'')))
         else (let gcode1 = gcode0 @ [if gunits = ''inch'' then ''G20 ; Set units to inches''
                                      else ''G21 ; Set units to mm''];
                   gcode2 = gcode1 @ [''G90 ; Absolute positioning''];
                   gcode3 = gcode2 @ [''G0 Z'' @ num_str lib safeZ @ '' F'' @ num_str lib rapidRate
                                        @ '' ; Move to clearance level''];
                   (gcode4, shown4) =
                      fold (legacy_operation lib inp passDepth tabGeometry ox oy) ops (gcode3, shown);
                   gcode5 = (if returnTo00 inp
                             then gcode4 @ [''G0 X0 Y0 F'' @ num_str lib rapidRate @ '' ; Return to 0,0'']
                             else gcode4);
                   gcode6 = gcode5 @ [''M2 ; end program'']
               in (shown4, Inr gcode6)))"

fun join_lines :: "string list \<Rightarrow> string" where
  "join_lines [] = []"
| "join_lines [l] = l"
| "join_lines (l # m # ls) = l @ [CHR 0x0A] @ join_lines (m # ls)"

definition generateGcode_legacy ::
  "('p, 'v) legacy_lib \<Rightarrow> ('p, 'v list list) inputs \<Rightarrow> string host \<Rightarrow> (error \<times> string host) + string host" where
  "generateGcode_legacy lib inp h =
     (if \<not> allowGen inp then Inr h
      else if length (enabled_ops (operations inp)) = 0 then Inr h
      else (case legacy_job lib inp of
              (shown, Inl e) \<Rightarrow> Inl (e, h\<lparr>alerts := alerts h @ shown\<rparr>)
            | (shown, Inr lines) \<Rightarrow>
                Inr (h\<lparr>gcode := join_lines lines,
                       alerts := alerts h @ shown,
                       events := events h @ [''UPDATE_SIMULATION''],
                       tutorial := tutorial h @ [5]\<rparr>)))"


section \<open>Concrete inputs\<close>

text \<open>
  The functions that are parameters above need concrete stand-ins wherever a theorem is
  exercised on an input. They are small on purpose and only used in the worked examples.
\<close>

subsection \<open>Stand-ins for InternalPaths.mergePaths and InternalPaths.crosses\<close>

text \<open>The simplest behaviour: nothing is merged, and no segment crosses the clip polygon.\<close>

definition keep_paths :: "'c option \<Rightarrow> 'v list list \<Rightarrow> 'v list list" where
  "keep_paths clipPoly paths = paths"

definition no_crossing :: "'c option \<Rightarrow> 'v option \<Rightarrow> 'v option \<Rightarrow> bool" where
  "no_crossing clipPoly a b = False"

subsection \<open>A one-dimensional geometry for pocket\<close>

text \<open>
  A contour is an interval on the integer line, given by its two end points in either
  order. Offsetting by a negative delta moves both ends inwards by the delta rounded up to
  the grid and drops the interval when nothing is left between them.
\<close>

definition line_shrink :: "int \<Rightarrow> int list \<Rightarrow> int list list" where
  "line_shrink k p =
     (let lo = min (hd p) (last p); hi = max (hd p) (last p)
      in if lo + k < hi - k then [[lo + k, hi - k]] else [])"

definition line_offset :: "int list list \<Rightarrow> real \<Rightarrow> int list list" where
  "line_offset g delta = (if delta < 0 then concat (map (line_shrink \<lceil>- delta\<rceil>) g) else g)"



subsection \<open>Rectangular tabs and horizontal tool paths for separateTabs\<close>

text \<open>
  A tab is an axis-aligned rectangle \<open>(xmin, ymin, xmax, ymax)\<close>. \<open>box_intersect\<close> gives
  the crossings of a horizontal segment with the two vertical sides of the rectangle, in the
  order the sides are stored; it is only meant for horizontal segments. The distance between
  two points of a horizontal line is the difference of their abscissae.
\<close>

type_synonym box = "int \<times> int \<times> int \<times> int"

definition box_contains :: "box \<Rightarrow> int point \<Rightarrow> bool" where
  "box_contains b p =
     (case b of (x0, y0, x1, y1) \<Rightarrow> x0 < fst p \<and> fst p < x1 \<and> y0 < snd p \<and> snd p < y1)"

definition box_intersect :: "int point \<Rightarrow> int point \<Rightarrow> box \<Rightarrow> int point list" where
  "box_intersect a b t =
     (case t of (x0, y0, x1, y1) \<Rightarrow>
        if snd a = snd b \<and> y0 < snd a \<and> snd a < y1
        then map (\<lambda>x. (x, snd a)) (filter (\<lambda>x. min (fst a) (fst b) < x \<and> x < max (fst a) (fst b)) [x0, x1])
        else [])"

definition along :: "int point \<Rightarrow> int point \<Rightarrow> real" where
  "along a b = real_of_int \<bar>fst a - fst b\<bar>"

subsection \<open>A job for generateGcode\<close>

fun digits :: "nat \<Rightarrow> string" where
  "digits n = (if n < 10 then [''0123456789'' ! n]
               else digits (n div 10) @ [''0123456789'' ! (n mod 10)])"

definition demo_operation :: "string \<Rightarrow> real \<Rightarrow> unit operation" where
  "demo_operation kind depth =
     \<lparr>op_enabled = True, op_toolPaths = Some [()], op_name = ''cut'', op_operation = kind,
      op_ramp = False, op_cutDepth = depth, op_direction = ''Conventional'', op_spindleSpeed = 0\<rparr>"

definition demo_inputs :: "unit operation list \<Rightarrow> real \<Rightarrow> bool \<Rightarrow> (unit, 'g) inputs" where
  "demo_inputs ops pass ret =
     \<lparr>allowGen = True, operations = ops, units = ''mm'',
      svgBB = \<lparr>r_left = 0, r_bottom = 100, r_width = 100, r_height = 100\<rparr>,
      toolPathsBB = \<lparr>r_left = 10, r_bottom = 90, r_width = 20, r_height = 20\<rparr>,
      origin = ''SVG page'', extraOffsetX = 0, extraOffsetY = 0, bbWidth = 20, bbHeight = 20,
      returnTo00 = ret, Material_topZ = 0, Material_botZ = -10, Material_zSafeMove = 5,
      Tool_passDepth = pass, Tool_plungeRate = 100, Tool_rapidRate = 1000, Tool_cutRate = 300,
      Tool_diameter = 3000000, Tabs_maxCutDepth = 1, tabs = []\<rparr>"

text \<open>The stand-in generator lists the kinds of the cards it was given and ends the program.\<close>

definition demo_lib :: "(unit, int list list) gcode_lib" where
  "demo_lib =
     \<lparr>integer_to = (\<lambda>u. 1 / 1000000), CutPaths_new = [], CutPaths_offset = (\<lambda>g d. g),
      CutPaths_union = (\<lambda>a b. a @ b), Ops_Perforate = ''Perforate'', Ops_Drill = ''Drill'',
      Generator_end = (\<lambda>job cards. map card_cutType cards @ [''M2''])\<rparr>"

text \<open>The stand-in for \<open>Gcode.generate\<close> emits one plunge to the pass depth; numbers print as
  their integer part.\<close>

definition demo_legacy_lib :: "(unit, int) legacy_lib" where
  "demo_legacy_lib =
     \<lparr>internal_to = (\<lambda>u. 1 / 1000000), IP_offset = (\<lambda>g d. g), IP_union = (\<lambda>a b. a @ b),
      Gcode_generate = (\<lambda>a. [''G1 Z-'' @ digits (nat \<lfloor>arg_passDepth a\<rfloor>)]),
      num_str = (\<lambda>r. digits (nat \<lfloor>r\<rfloor>)), toFixed2 = (\<lambda>r. digits (nat \<lfloor>r\<rfloor>) @ ''.00'')\<rparr>"

definition no_host :: "'c \<Rightarrow> 'c host" where
  "no_host g = \<lparr>gcode = g, alerts = [], events = [], tutorial = []\<rparr>"

section \<open>Properties of engrave\<close>

lemma length_close_path: "length (close_path c) = length c + 1"
  by (simp add: close_path_def)








section \<open>Properties of pocket\<close>

subsection \<open>The store\<close>

lemma length_reverse_each: "length (reverse_each as h) = length h"
  unfolding reverse_each_def by (induction as arbitrary: h) simp_all

lemma reverse_each_other: "a \<notin> set as \<Longrightarrow> reverse_each as h ! a = h ! a"
  unfolding reverse_each_def by (induction as arbitrary: h) auto

lemma reverse_each_member:
  "distinct as \<Longrightarrow> a \<in> set as \<Longrightarrow> set as \<subseteq> {..<length h} \<Longrightarrow> reverse_each as h ! a = rev (h ! a)"
proof (induction as arbitrary: h)
  case Nil
  then show ?case by simp
next
  case (Cons b bs)
  let ?h = "h[b := rev (h ! b)]"
  have step: "reverse_each (b # bs) h = reverse_each bs ?h"
    by (simp add: reverse_each_def)
  show ?case
  proof (cases "a = b")
    case True
    with Cons.prems have "a \<notin> set bs" "a < length h" by auto
    then show ?thesis using True by (simp add: step reverse_each_other)
  next
    case False
    with Cons.prems have "distinct bs" "a \<in> set bs" "set bs \<subseteq> {..<length ?h}" by auto
    then have "reverse_each bs ?h ! a = rev (?h ! a)" by (rule Cons.IH)
    with False show ?thesis by (simp add: step)
  qed
qed

lemma deref_reverse_each:
  "distinct as \<Longrightarrow> set as \<subseteq> {..<length h} \<Longrightarrow> deref (reverse_each as h) as = map rev (deref h as)"
  by (simp add: deref_def reverse_each_member)

lemma deref_cong: "(\<And>a. a \<in> set as \<Longrightarrow> h ! a = h' ! a) \<Longrightarrow> deref h as = deref h' as"
  by (simp add: deref_def)

lemma deref_append: "deref h (as @ bs) = deref h as @ deref h bs"
  by (simp add: deref_def)

lemma deref_alloc: "deref (h @ ps) [length h ..< length h + length ps] = ps"
  by (rule nth_equalityI) (simp_all add: deref_def nth_append)

lemma pocket_loop_passes:
  "distinct cur \<Longrightarrow> set cur \<subseteq> {..<length h} \<Longrightarrow> set acc \<subseteq> {..<length h} \<Longrightarrow> set cur \<inter> set acc = {} \<Longrightarrow>
   (case pocket_loop n offset d ov climb cur acc h of
      None \<Rightarrow> pocket_passes n offset (- d * (1 - ov)) climb (deref h cur) (deref h acc) = None
    | Some (A, h') \<Rightarrow>
        pocket_passes n offset (- d * (1 - ov)) climb (deref h cur) (deref h acc) = Some (deref h' A) \<and>
        length h \<le> length h' \<and>
        (\<forall>a < length h. a \<notin> set cur \<longrightarrow> h' ! a = h ! a) \<and>
        (\<forall>a \<in> set cur. h' ! a = (if climb then rev (h ! a) else h ! a)))"
proof (induction n arbitrary: cur acc h)
  case 0
  then show ?case by (simp add: deref_def)
next
  case (Suc n)
  show ?case
  proof (cases "cur = []")
    case True
    then show ?thesis by (simp add: deref_def)
  next
    case False
    define h1 where "h1 = (if climb then reverse_each cur h else h)"
    define c where "c = (if climb then map rev (deref h cur) else deref h cur)"
    define delta where "delta = - d * (1 - ov)"
    define new where "new = offset c delta"
    define cur' where "cur' = [length h1 ..< length h1 + length new]"
    define h2 where "h2 = h1 @ new"
    have len1: "length h1 = length h" by (simp add: h1_def length_reverse_each)
    have d1: "deref h1 cur = c"
      using Suc.prems by (simp add: h1_def c_def deref_reverse_each)
    have other1: "a \<notin> set cur \<Longrightarrow> h1 ! a = h ! a" for a
      by (simp add: h1_def reverse_each_other)
    have member1: "a \<in> set cur \<Longrightarrow> h1 ! a = (if climb then rev (h ! a) else h ! a)" for a
      using Suc.prems by (simp add: h1_def reverse_each_member)
    have d1acc: "deref h1 acc = deref h acc"
      using Suc.prems by (intro deref_cong other1) auto
    have old2: "a < length h \<Longrightarrow> h2 ! a = h1 ! a" for a
      by (simp add: h2_def nth_append len1)
    have d2cur: "deref h2 cur' = new"
      by (simp add: h2_def cur'_def deref_alloc)
    have d2acc: "deref h2 (cur @ acc) = c @ deref h acc"
    proof -
      have "deref h2 (cur @ acc) = deref h1 (cur @ acc)"
        using Suc.prems by (intro deref_cong old2) auto
      then show ?thesis by (simp add: deref_append d1 d1acc)
    qed
    have unfold: "pocket_loop (Suc n) offset d ov climb cur acc h =
                  pocket_loop n offset d ov climb cur' (cur @ acc) h2"
      using False unfolding pocket_loop.simps(2) delta_def [symmetric]
      by (simp add: alloc_def Let_def h1_def [symmetric] d1 new_def [symmetric]
                    cur'_def [symmetric] h2_def [symmetric])
    have "pocket_passes (Suc n) offset delta climb (deref h cur) (deref h acc) =
          pocket_passes n offset delta climb (offset c delta) (c @ deref h acc)"
      using False by (simp add: Let_def c_def deref_def)
    then have unfold_spec: "pocket_passes (Suc n) offset (- d * (1 - ov)) climb (deref h cur) (deref h acc) =
                       pocket_passes n offset (- d * (1 - ov)) climb (deref h2 cur') (deref h2 (cur @ acc))"
      by (simp only: d2cur d2acc new_def delta_def)
    have inv: "distinct cur'" "set cur' \<subseteq> {..<length h2}" "set (cur @ acc) \<subseteq> {..<length h2}"
              "set cur' \<inter> set (cur @ acc) = {}"
      using Suc.prems by (auto simp: cur'_def h2_def len1)
    note IH = Suc.IH [OF inv]
    show ?thesis
    proof (cases "pocket_loop n offset d ov climb cur' (cur @ acc) h2")
      case None
      with IH show ?thesis unfolding unfold unfold_spec by simp
    next
      case (Some r)
      obtain A h' where r: "r = (A, h')" by (cases r)
      from IH Some r have res:
        "pocket_passes n offset (- d * (1 - ov)) climb (deref h2 cur') (deref h2 (cur @ acc)) = Some (deref h' A)"
        and len': "length h2 \<le> length h'"
        and keep': "\<forall>a < length h2. a \<notin> set cur' \<longrightarrow> h' ! a = h2 ! a"
        by simp_all
      have stay: "h' ! a = h1 ! a" if "a < length h" for a
      proof -
        have "a < length h2" "a \<notin> set cur'" using that by (simp_all add: h2_def cur'_def len1)
        with keep' have "h' ! a = h2 ! a" by simp
        with that show ?thesis by (simp add: old2)
      qed
      have "length h \<le> length h'" using len' by (simp add: h2_def len1)
      moreover have "\<forall>a < length h. a \<notin> set cur \<longrightarrow> h' ! a = h ! a"
        by (simp add: stay other1)
      moreover have "\<forall>a \<in> set cur. h' ! a = (if climb then rev (h ! a) else h ! a)"
      proof
        fix a assume a: "a \<in> set cur"
        with Suc.prems have "a < length h" by auto
        then show "h' ! a = (if climb then rev (h ! a) else h ! a)"
          using member1 [OF a] by (simp add: stay)
      qed
      ultimately show ?thesis using res unfolding unfold unfold_spec Some r by simp
    qed
  qed
qed

lemma pocket_exact:
  "pocket fuel offset ip_merge ip_crosses g d ov climb =
     (let g0 = offset g (- d / 2)
      in map_option (mergePaths ip_merge ip_crosses (Some (if climb then map rev g0 else g0)))
           (pocket_passes fuel offset (- d * (1 - ov)) climb g0 []))"
proof -
  define half where "half = - d / 2"
  define g0 where "g0 = offset g half"
  define cur where "cur = [0 ..< length g0]"
  have dcur: "deref g0 cur = g0"
    using deref_alloc [of "[]" g0] by (simp add: cur_def)
  have sim: "case pocket_loop fuel offset d ov climb cur [] g0 of
      None \<Rightarrow> pocket_passes fuel offset (- d * (1 - ov)) climb (deref g0 cur) (deref g0 []) = None
    | Some (A, h') \<Rightarrow>
        pocket_passes fuel offset (- d * (1 - ov)) climb (deref g0 cur) (deref g0 []) = Some (deref h' A) \<and>
        length g0 \<le> length h' \<and>
        (\<forall>a < length g0. a \<notin> set cur \<longrightarrow> h' ! a = g0 ! a) \<and>
        (\<forall>a \<in> set cur. h' ! a = (if climb then rev (g0 ! a) else g0 ! a))"
    by (rule pocket_loop_passes) (auto simp: cur_def)
  have p: "pocket fuel offset ip_merge ip_crosses g d ov climb =
        (case pocket_loop fuel offset d ov climb cur [] g0 of
           None \<Rightarrow> None
         | Some (allPaths, h) \<Rightarrow>
             Some (mergePaths ip_merge ip_crosses (Some (deref h cur)) (deref h allPaths)))"
    unfolding pocket_def half_def [symmetric] g0_def [symmetric]
    by (simp add: alloc_def cur_def cong: option.case_cong)
  show ?thesis
  proof (cases "pocket_loop fuel offset d ov climb cur [] g0")
    case None
    with sim have "pocket_passes fuel offset (- d * (1 - ov)) climb g0 [] = None"
      by (simp add: dcur deref_def [of g0 "[]"])
    with None show ?thesis
      unfolding p half_def [symmetric] g0_def [symmetric] Let_def by simp
  next
    case (Some r)
    obtain A h' where r: "r = (A, h')" by (cases r)
    from sim Some r have res: "pocket_passes fuel offset (- d * (1 - ov)) climb g0 [] = Some (deref h' A)"
      and mem: "\<forall>a \<in> set cur. h' ! a = (if climb then rev (g0 ! a) else g0 ! a)"
      by (simp_all add: dcur deref_def [of g0 "[]"])
    have "deref h' cur = (if climb then map rev g0 else g0)"
    proof (rule nth_equalityI)
      show "length (deref h' cur) = length (if climb then map rev g0 else g0)"
        by (simp add: deref_def cur_def)
    next
      fix i assume "i < length (deref h' cur)"
      then have i: "i < length g0" by (simp add: deref_def cur_def)
      then have "i \<in> set cur" by (simp add: cur_def)
      with mem have "h' ! i = (if climb then rev (g0 ! i) else g0 ! i)" by blast
      with i show "deref h' cur ! i = (if climb then map rev g0 else g0) ! i"
        by (simp add: deref_def cur_def)
    qed
    with Some r res show ?thesis
      unfolding p half_def [symmetric] g0_def [symmetric] Let_def by simp
  qed
qed

lemma mergePaths_cong:
  "(\<forall>ps. ip_merge c ps = ip_merge c' ps) \<Longrightarrow> (\<forall>a b. ip_crosses c a b = ip_crosses c' a b) \<Longrightarrow>
   mergePaths ip_merge ip_crosses c = mergePaths ip_merge ip_crosses c'"
  by (rule ext) (simp add: mergePaths_def)


subsection \<open>The one-dimensional geometry meets the contract of offset\<close>








subsection \<open>The algorithm\<close>

text \<open>
  Claim C1. pocket computes its result by the algorithm of the specification: the initial
  pass is \<open>offset(geometry, -cutterDia/2)\<close>; while the current set is non-empty it is
  prepended to the accumulated list (each path reversed first when climb is set) and
  replaced by its offset by \<open>-cutterDia\<cdot>(1 - overlap)\<close>; the result is \<open>mergePaths\<close> of the
  accumulated list against the initial offset polygon. With the same fuel the function and
  the algorithm give the same result, or both are still running.

  The clip polygon shares its path arrays with the first pass, so when climb is set its
  contours reach \<open>mergePaths\<close> with their vertices listed in the opposite direction
  (lemma \<open>pocket_exact\<close>). The hypotheses say that \<open>InternalPaths.mergePaths\<close> and
  \<open>InternalPaths.crosses\<close> do not depend on that direction.
\<close>

theorem pocket_algorithm:
  fixes offset :: "'v list list \<Rightarrow> real \<Rightarrow> 'v list list"
  assumes "climb \<Longrightarrow> \<forall>ps. ip_merge (Some (map rev (offset geometry (- cutterDia / 2)))) ps
                         = ip_merge (Some (offset geometry (- cutterDia / 2))) ps"
    and "climb \<Longrightarrow> \<forall>a b. ip_crosses (Some (map rev (offset geometry (- cutterDia / 2)))) a b
                         = ip_crosses (Some (offset geometry (- cutterDia / 2))) a b"
  shows "pocket fuel offset ip_merge ip_crosses geometry cutterDia overlap climb =
         pocket_spec fuel offset ip_merge ip_crosses geometry cutterDia overlap climb"
proof (cases climb)
  case False
  then show ?thesis by (simp add: pocket_exact pocket_spec_def)
next
  case True
  from assms [OF True] have "mergePaths ip_merge ip_crosses (Some (map rev (offset geometry (- cutterDia / 2))))
       = mergePaths ip_merge ip_crosses (Some (offset geometry (- cutterDia / 2)))"
    by (rule mergePaths_cong)
  with True show ?thesis by (simp add: pocket_exact pocket_spec_def Let_def)
qed

theorem pocket_algorithm_witness:
  "pocket 4 line_offset keep_paths no_crossing [[0, 20], [30, 40]] 4 (1 / 2) True =
     Some [\<lparr>path = [12, 8], safeToClose = True\<rparr>, \<lparr>path = [14, 6], safeToClose = True\<rparr>,
           \<lparr>path = [16, 4], safeToClose = True\<rparr>, \<lparr>path = [36, 34], safeToClose = True\<rparr>,
           \<lparr>path = [18, 2], safeToClose = True\<rparr>, \<lparr>path = [38, 32], safeToClose = True\<rparr>] \<and>
   pocket_spec 4 line_offset keep_paths no_crossing [[0, 20], [30, 40]] 4 (1 / 2) True =
     Some [\<lparr>path = [12, 8], safeToClose = True\<rparr>, \<lparr>path = [14, 6], safeToClose = True\<rparr>,
           \<lparr>path = [16, 4], safeToClose = True\<rparr>, \<lparr>path = [36, 34], safeToClose = True\<rparr>,
           \<lparr>path = [18, 2], safeToClose = True\<rparr>, \<lparr>path = [38, 32], safeToClose = True\<rparr>]"
  using pocket_algorithm [of True keep_paths line_offset "[[0, 20], [30, 40]]" 4 no_crossing 4 "1 / 2"]
  by (simp add: keep_paths_def no_crossing_def pocket_spec_def mergePaths_def nth_js_def line_offset_def line_shrink_def Let_def
                eval_nat_numeral)

subsection \<open>Termination\<close>





section \<open>Properties of separateTabs\<close>






lemma chain_nonempty: "shares_end_points ps \<Longrightarrow> [] \<notin> set ps"
  by (induction ps rule: shares_end_points.induct) auto




text \<open>
  The start of the walk is the last vertex of the tool path. Whenever it lies inside a tab
  polygon the call \<open>paths.unshift\<close> is reached, and throws.
\<close>

lemma separateTabs_throws:
  "toolPath \<noteq> [] \<Longrightarrow> list_ex (\<lambda>tab. contains tab (last toolPath)) tabGeometry \<Longrightarrow>
   separateTabs contains intersect distanceTo toolPath tabGeometry = Inl (ReferenceError ''paths'')"
  by (simp add: separateTabs_def nth_js_def last_conv_nth nat_diff_distrib')

lemma separateTabs_empty_path:
  "separateTabs contains intersect distanceTo [] tabGeometry = Inl (TypeError ''ip0 is undefined'')"
  by (simp add: separateTabs_def nth_js_def)

text \<open>
  The end vertex of a segment is pushed inside the loop over the tab polygons: twice with
  two polygons, never with none.
\<close>

lemma separateTabs_two_tabs_example:
  "separateTabs box_contains box_intersect along [(0, 0), (10, 0)] [(4, -1, 6, 1), (20, -1, 21, 1)] =
     Inr [[(10, 0), (6, 0)], [(6, 0), (4, 0)], [(4, 0), (0, 0), (0, 0), (4, 0)], [(4, 0), (6, 0)],
          [(6, 0), (10, 0), (10, 0)]]"
  by (simp add: separateTabs_def nth_js_def box_contains_def box_intersect_def along_def
                tab_step_def split_at_def Let_def)

lemma separateTabs_no_tabs_example:
  "separateTabs box_contains box_intersect along [(0, 0), (10, 0)] [] = Inr []"
  by (simp add: separateTabs_def nth_js_def)

text \<open>
  Claim C2. When the vertex the splitter starts from lies inside a tab polygon, a
  zero-length sub-path is to be put in front of the output. The source attempts it with
  \<open>paths.unshift([ip0, ip0])\<close>, but \<open>paths\<close> is declared further down, so the call
  throws and nothing is returned. Here both end vertices of the tool path lie inside a tab.
\<close>

theorem separateTabs_start_inside_tab:
  "box_contains (4, -1, 6, 1) (5, 0) \<and> box_contains (14, -1, 16, 1) (15, 0) \<and>
   separateTabs box_contains box_intersect along [(5, 0), (10, 0), (15, 0)]
     [(4, -1, 6, 1), (14, -1, 16, 1)] = Inl (ReferenceError ''paths'')"
  by (simp add: separateTabs_def nth_js_def box_contains_def)





section \<open>Properties of generateGcode\<close>

subsection \<open>The postamble of the earlier version\<close>








subsection \<open>Operation cards of the current version\<close>

lemma make_job_passDepth:
  "job_passDepth (fst (make_job lib inp)) = max 0 (Tool_passDepth inp)"
  by (simp add: make_job_def Let_def split: prod.splits)

lemma make_job_shown:
  "snd (make_job lib inp) =
     (if Tool_passDepth inp < 0
      then [\<lparr>alert_id = ''passDepthTooSmall'', alert_type = ''alert-warning'',
             alert_params = [Tool_passDepth inp]\<rparr>]
      else [])"
  by (simp add: make_job_def Let_def split: prod.splits)

lemma generateGcode_runs:
  "allowGen inp \<Longrightarrow> enabled_ops (operations inp) \<noteq> [] \<Longrightarrow>
   generateGcode lib inp h =
     h\<lparr>gcode := Generator_end lib (fst (make_job lib inp))
                  (map (\<lambda>op. fst (make_opCard lib (fst (make_job lib inp)) op)) (enabled_ops (operations inp))),
       alerts := alerts h @ snd (make_job lib inp) @
                 concat (map (\<lambda>op. snd (make_opCard lib (fst (make_job lib inp)) op)) (enabled_ops (operations inp))),
       events := events h @ [''UPDATE_SIMULATION''],
       tutorial := tutorial h @ [5]\<rparr>"
  by (simp add: generateGcode_def Let_def comp_def split: prod.splits)

text \<open>
  Claim C7. In the card of an operation whose kind is Perforate or Drill,
  \<open>precalculatedZ\<close> is true and the pass depth is the cut depth of the operation (which is
  also the cut depth of the card unless that was negative and clamped); for every other
  kind \<open>precalculatedZ\<close> is false and the pass depth is the pass depth of the job, which is
  the tool's pass depth clamped at zero. These cards are the ones handed to the generator.
\<close>

theorem precalculated_cards:
  "let job = fst (make_job lib inp);
       ops = enabled_ops (operations inp);
       cards = map (\<lambda>op. fst (make_opCard lib job op)) ops
   in (allowGen inp \<and> ops \<noteq> [] \<longrightarrow> gcode (generateGcode lib inp h) = Generator_end lib job cards) \<and>
      job_passDepth job = max 0 (Tool_passDepth inp) \<and>
      (\<forall>op. let card = fst (make_opCard lib job op) in
         if op_operation op = Ops_Perforate lib \<or> op_operation op = Ops_Drill lib
         then card_precalculatedZ card \<and> card_passDepth card = op_cutDepth op \<and>
              (0 \<le> op_cutDepth op \<longrightarrow> card_cutDepth card = op_cutDepth op)
         else \<not> card_precalculatedZ card \<and> card_passDepth card = job_passDepth job)"
  unfolding Let_def
proof (intro conjI impI allI)
  assume "allowGen inp \<and> enabled_ops (operations inp) \<noteq> []"
  then show "gcode (generateGcode lib inp h) =
        Generator_end lib (fst (make_job lib inp))
          (map (\<lambda>op. fst (make_opCard lib (fst (make_job lib inp)) op)) (enabled_ops (operations inp)))"
    by (simp add: generateGcode_runs)
next
  show "job_passDepth (fst (make_job lib inp)) = max 0 (Tool_passDepth inp)"
    by (rule make_job_passDepth)
next
  fix op
  show "if op_operation op = Ops_Perforate lib \<or> op_operation op = Ops_Drill lib
        then card_precalculatedZ (fst (make_opCard lib (fst (make_job lib inp)) op)) \<and>
             card_passDepth (fst (make_opCard lib (fst (make_job lib inp)) op)) = op_cutDepth op \<and>
             (0 \<le> op_cutDepth op \<longrightarrow>
                card_cutDepth (fst (make_opCard lib (fst (make_job lib inp)) op)) = op_cutDepth op)
        else \<not> card_precalculatedZ (fst (make_opCard lib (fst (make_job lib inp)) op)) \<and>
             card_passDepth (fst (make_opCard lib (fst (make_job lib inp)) op)) =
               job_passDepth (fst (make_job lib inp))"
    by (simp add: make_opCard_def Let_def)
qed

theorem precalculated_cards_witness:
  "allowGen (demo_inputs [demo_operation ''Drill'' 5, demo_operation ''Perforate'' 3, demo_operation ''Pocket'' 4] 2 False :: (unit, int list list) inputs) \<and>
   map (\<lambda>op. let card = fst (make_opCard demo_lib
                              (fst (make_job demo_lib (demo_inputs [] 2 False))) op)
             in (card_precalculatedZ card, card_passDepth card, card_cutDepth card))
       [demo_operation ''Drill'' 5, demo_operation ''Perforate'' 3, demo_operation ''Pocket'' 4] =
     [(True, 5, 5), (True, 3, 3), (False, 2, 4)] \<and>
   gcode (generateGcode demo_lib
            (demo_inputs [demo_operation ''Drill'' 5, demo_operation ''Perforate'' 3, demo_operation ''Pocket'' 4] 2 False)
            (no_host [])) = [''Drill'', ''Perforate'', ''Pocket'', ''M2'']"
  using precalculated_cards
          [of demo_lib "demo_inputs [demo_operation ''Drill'' 5, demo_operation ''Perforate'' 3, demo_operation ''Pocket'' 4] 2 False"
              "no_host []"]
  by (simp add: generateGcode_def make_job_def make_opCard_def demo_lib_def demo_inputs_def
                demo_operation_def enabled_ops_def origin_offset_def no_host_def Let_def)

text \<open>
  Claim C9. When generation runs (it is allowed and some enabled operation has tool
  paths), a negative pass depth is replaced by 0 in the job and the alert
  \<open>passDepthTooSmall\<close> is shown; a negative cut depth of an operation is replaced by 0 in
  its card and the alert \<open>cutDepthTooSmall\<close> is shown; generation goes on: the G-code is
  what the generator returns for that job and those cards, and the simulation is told to
  update.
\<close>

theorem negative_depths_clamped:
  assumes "allowGen inp" and "enabled_ops (operations inp) \<noteq> []"
  shows "let h' = generateGcode lib inp h;
             job = fst (make_job lib inp);
             ops = enabled_ops (operations inp);
             cards = map (\<lambda>op. fst (make_opCard lib job op)) ops
         in gcode h' = Generator_end lib job cards \<and>
            events h' = events h @ [''UPDATE_SIMULATION''] \<and>
            (Tool_passDepth inp < 0 \<longrightarrow>
               job_passDepth job = 0 \<and>
               \<lparr>alert_id = ''passDepthTooSmall'', alert_type = ''alert-warning'',
                alert_params = [Tool_passDepth inp]\<rparr> \<in> set (alerts h')) \<and>
            (\<forall>op \<in> set ops. op_cutDepth op < 0 \<longrightarrow>
               card_cutDepth (fst (make_opCard lib job op)) = 0 \<and>
               \<lparr>alert_id = ''cutDepthTooSmall'', alert_type = ''alert-warning'',
                alert_params = []\<rparr> \<in> set (alerts h'))"
proof -
  define job where "job = fst (make_job lib inp)"
  define ops where "ops = enabled_ops (operations inp)"
  have run: "generateGcode lib inp h =
     h\<lparr>gcode := Generator_end lib job (map (\<lambda>op. fst (make_opCard lib job op)) ops),
       alerts := alerts h @ snd (make_job lib inp) @ concat (map (\<lambda>op. snd (make_opCard lib job op)) ops),
       events := events h @ [''UPDATE_SIMULATION''],
       tutorial := tutorial h @ [5]\<rparr>"
    using generateGcode_runs [OF assms] by (simp add: job_def ops_def)
  have pass: "job_passDepth job = 0 \<and>
        \<lparr>alert_id = ''passDepthTooSmall'', alert_type = ''alert-warning'',
         alert_params = [Tool_passDepth inp]\<rparr> \<in> set (alerts (generateGcode lib inp h))"
    if "Tool_passDepth inp < 0"
    using that by (simp add: run make_job_shown) (simp add: job_def make_job_passDepth)
  have cut: "card_cutDepth (fst (make_opCard lib job op)) = 0 \<and>
        \<lparr>alert_id = ''cutDepthTooSmall'', alert_type = ''alert-warning'', alert_params = []\<rparr>
          \<in> set (alerts (generateGcode lib inp h))"
    if "op \<in> set ops" "op_cutDepth op < 0" for op
  proof -
    have c: "make_opCard lib job op =
          (fst (make_opCard lib job op),
           [\<lparr>alert_id = ''cutDepthTooSmall'', alert_type = ''alert-warning'', alert_params = []\<rparr>])"
      and z: "card_cutDepth (fst (make_opCard lib job op)) = 0"
      using that(2) by (simp_all add: make_opCard_def Let_def)
    have "\<lparr>alert_id = ''cutDepthTooSmall'', alert_type = ''alert-warning'', alert_params = []\<rparr>
            \<in> set (snd (make_opCard lib job op))"
      by (subst c) simp
    with that(1) have "\<lparr>alert_id = ''cutDepthTooSmall'', alert_type = ''alert-warning'', alert_params = []\<rparr>
            \<in> set (concat (map (\<lambda>op. snd (make_opCard lib job op)) ops))"
      by auto
    with z show ?thesis by (simp add: run)
  qed
  show ?thesis
    unfolding Let_def job_def [symmetric] ops_def [symmetric]
    using pass cut by (simp add: run)
qed

theorem negative_depths_clamped_witness:
  "allowGen (demo_inputs [demo_operation ''Pocket'' (- 1)] (- 2) False :: (unit, int list list) inputs) \<and>
   enabled_ops (operations (demo_inputs [demo_operation ''Pocket'' (- 1)] (- 2) False :: (unit, int list list) inputs)) \<noteq> [] \<and>
   generateGcode demo_lib (demo_inputs [demo_operation ''Pocket'' (- 1)] (- 2) False) (no_host []) =
     \<lparr>gcode = [''Pocket'', ''M2''],
      alerts = [\<lparr>alert_id = ''passDepthTooSmall'', alert_type = ''alert-warning'', alert_params = [- 2]\<rparr>,
                \<lparr>alert_id = ''cutDepthTooSmall'', alert_type = ''alert-warning'', alert_params = []\<rparr>],
      events = [''UPDATE_SIMULATION''], tutorial = [5]\<rparr> \<and>
   job_passDepth (fst (make_job demo_lib (demo_inputs [demo_operation ''Pocket'' (- 1)] (- 2) False))) = 0 \<and>
   card_cutDepth (fst (make_opCard demo_lib
      (fst (make_job demo_lib (demo_inputs [demo_operation ''Pocket'' (- 1)] (- 2) False)))
      (demo_operation ''Pocket'' (- 1)))) = 0"
  using negative_depths_clamped
          [of "demo_inputs [demo_operation ''Pocket'' (- 1)] (- 2) False" demo_lib "no_host []"]
  by (simp add: generateGcode_def make_job_def make_opCard_def demo_lib_def demo_inputs_def
                demo_operation_def enabled_ops_def origin_offset_def no_host_def Let_def)

subsection \<open>No operation to generate\<close>

text \<open>
  Claim C8, as stated: with no enabled operation that has tool paths, generation still
  emits the preamble and the postamble. It does not: both versions return before anything
  is emitted and the \<open>gcode\<close> observable keeps the value it had, here the empty one. The
  three operations are one that is disabled, one with an empty list of tool paths and one
  whose tool paths are \<open>null\<close>.
\<close>

theorem no_operations_counterexample:
  "generateGcode demo_lib
     (demo_inputs [(demo_operation ''Pocket'' 4)\<lparr>op_enabled := False\<rparr>,
                   (demo_operation ''Pocket'' 4)\<lparr>op_toolPaths := Some []\<rparr>,
                   (demo_operation ''Pocket'' 4)\<lparr>op_toolPaths := None\<rparr>] 2 True)
     (no_host []) = no_host [] \<and>
   gcode (no_host [] :: string list host) = [] \<and>
   generateGcode_legacy demo_legacy_lib
     (demo_inputs [(demo_operation ''Pocket'' 4)\<lparr>op_enabled := False\<rparr>,
                   (demo_operation ''Pocket'' 4)\<lparr>op_toolPaths := Some []\<rparr>,
                   (demo_operation ''Pocket'' 4)\<lparr>op_toolPaths := None\<rparr>] 2 True)
     (no_host []) = Inr (no_host []) \<and>
   gcode (no_host [] :: string host) = []"
  by (simp add: generateGcode_def generateGcode_legacy_def demo_inputs_def demo_operation_def
                enabled_ops_def no_host_def Let_def)

text \<open>
  Claim C8, amended: when no enabled operation has tool paths, \<open>generateGcode\<close> returns
  at once; nothing is emitted, no alert is shown, and the \<open>gcode\<close> observable is left as
  it was.
\<close>

theorem no_operations_no_output:
  "enabled_ops (operations inp) = [] \<Longrightarrow>
   generateGcode lib inp h = h \<and> generateGcode_legacy llib inp hl = Inr hl"
  by (simp add: generateGcode_def generateGcode_legacy_def Let_def)

theorem no_operations_no_output_witness:
  "enabled_ops (operations (demo_inputs [] 2 True :: (unit, int list list) inputs)) = [] \<and>
   generateGcode demo_lib (demo_inputs [] 2 True) (no_host [''G21'', ''M2'']) = no_host [''G21'', ''M2''] \<and>
   generateGcode_legacy demo_legacy_lib (demo_inputs [] 2 True) (no_host ''G21'') = Inr (no_host ''G21'')"
  using no_operations_no_output
          [of "demo_inputs [] 2 True" demo_lib "no_host [''G21'', ''M2'']" demo_legacy_lib "no_host ''G21''"]
  by (simp add: demo_inputs_def enabled_ops_def)


end
